theory Spec2Isabelle
  imports Complex_Main "HOL-Library.Char_ord" "HOL-Library.List_Lexorder"
begin

section \<open>StarSearch: the ESO phase 3 query client (phase3Archive.py)\<close>

text \<open>
  The module is one class, \<^verbatim>\<open>ESOquery\<close>, layered over three collaborators that are not
  part of the repository: the archive client (\<^verbatim>\<open>self.eso\<close>), the time library
  (\<^verbatim>\<open>Time\<close>) and numpy's \<^verbatim>\<open>loadtxt\<close>. The collaborators are parameters of the
  model (the record \<open>env\<close> below); every method of the class is a function of \<open>env\<close>
  and of its Python arguments. A call that may raise returns \<open>error + 'a\<close>; a method
  that prints or downloads takes and returns the record \<open>world\<close> of its effects.
\<close>

subsection \<open>Strings: \<^verbatim>\<open>str.endswith\<close>, the slice \<^verbatim>\<open>name[:-k]\<close>\<close>

definition endswith :: "string \<Rightarrow> string \<Rightarrow> bool" where
  "endswith name suf =
     (length suf \<le> length name \<and> drop (length name - length suf) name = suf)"

text \<open>
  \<^verbatim>\<open>name[:-k]\<close> for a positive literal \<open>k\<close>: Python clamps the stop index at 0, so a
  name shorter than \<open>k\<close> gives the empty string, as the truncating subtraction does.
\<close>

definition slice_to_minus :: "nat \<Rightarrow> string \<Rightarrow> string" where
  "slice_to_minus k name = take (length name - k) name"

subsection \<open>\<^verbatim>\<open>_remove_planet\<close> (lines 427-449)\<close>

definition planets :: string where
  "planets = ''bcdefghijB''"

text \<open>
  The \<^verbatim>\<open>for planet in planets\<close> loop with its early return: \<open>Some\<close> is the value
  returned from inside the loop, \<open>None\<close> means the loop ran to its end.
\<close>

fun remove_planet_loop :: "string \<Rightarrow> string \<Rightarrow> string option" where
  "remove_planet_loop [] name = None"
| "remove_planet_loop (planet # ps) name =
     (if endswith name ('' '' @ [planet]) then Some (slice_to_minus 2 name)
      else remove_planet_loop ps name)"

definition remove_planet :: "string \<Rightarrow> string" where
  "remove_planet name =
     (case remove_planet_loop planets name of
        Some r \<Rightarrow> r
      | None \<Rightarrow>
          if endswith name ''.01'' \<or> endswith name ''.02'' \<or> endswith name ''.2''
          then slice_to_minus 3 name
          else name)"

subsection \<open>Data model and collaborators\<close>

text \<open>
  The exceptions: those a collaborator raises on its own account, numpy's
  \<^verbatim>\<open>IndexError\<close> for a boolean mask whose length is not the table's, and Python's
  \<^verbatim>\<open>TypeError\<close> for iterating over a 0-d array. The class raises none of its own
  and catches them only in \<^verbatim>\<open>readList\<close>.
\<close>

datatype error = ArchiveError | TimeError | FileError | IndexError | TypeError

text \<open>A point in time (what \<^verbatim>\<open>Time(...)\<close> denotes), on a real time scale.\<close>

type_synonym time = real

text \<open>
  An entry of a float column: a number or NaN. Every comparison with NaN is false, so
  \<^verbatim>\<open>x < t\<close> and \<^verbatim>\<open>x >= t\<close> are both false for a NaN entry.
\<close>

datatype pyfloat = NaN | Finite real

fun float_lt :: "pyfloat \<Rightarrow> real \<Rightarrow> bool" where
  "float_lt NaN t = False"
| "float_lt (Finite x) t = (x < t)"


text \<open>
  What \<^verbatim>\<open>np.loadtxt\<close> returns for one column of strings: a 1-d array, or a 0-d
  array when the file has a single data row (\<^verbatim>\<open>ndmin\<close> is left at 0, so axes of
  length one are squeezed). \<open>squeeze\<close> gives the array for the names of a file.
\<close>

datatype ndarray = Array0 string | Array1 "string list"

fun squeeze :: "string list \<Rightarrow> ndarray" where
  "squeeze [name] = Array0 name"
| "squeeze names = Array1 names"

text \<open>One row of the table returned by \<^verbatim>\<open>query_surveys\<close>, with the columns the class reads.\<close>

record row =
  Instrument :: string
  Date_Obs :: string
  SNR_spectra :: pyfloat
  ARCFILE :: string

text \<open>
  The \<^verbatim>\<open>surveys\<close> argument of \<^verbatim>\<open>query_surveys\<close>: \<^verbatim>\<open>searchStar\<close> passes either one
  instrument name or the list of recognized instruments.
\<close>

datatype surveys = SurveyName string | SurveyList "string list"

text \<open>
  The collaborators:
  \<^item> \<open>query_main star\<close> is \<^verbatim>\<open>self.eso.query_main(column_filters={'target': star})\<close>,
    given by the \<^verbatim>\<open>'Instrument'\<close> column of the table it returns (the only column read);
  \<^item> \<open>query_surveys s star\<close> is \<^verbatim>\<open>self.eso.query_surveys(surveys = s, target = star)\<close>;
  \<^item> \<open>retrieve_data datasets destination\<close> is the outcome of
    \<^verbatim>\<open>self.eso.retrieve_data\<close> (its return value is dropped by the class);
  \<^item> \<open>Time s\<close> is \<^verbatim>\<open>Time(s)\<close> on one string (the \<open>date\<close> argument);
  \<^item> \<open>Time_array column\<close> is \<^verbatim>\<open>Time(search['Date Obs'])\<close>, the conversion of a
    column as a whole: it may raise on a column that \<open>Time\<close> converts entry by entry,
    and nothing is assumed about the length of what it returns;
  \<^item> \<open>loadtxt fname delimiter usecols skiprows\<close> is
    \<^verbatim>\<open>np.loadtxt(fname, dtype=str, delimiter=..., usecols=..., skiprows=...)\<close>.
\<close>

record env =
  query_main :: "string \<Rightarrow> error + string list"
  query_surveys :: "surveys \<Rightarrow> string \<Rightarrow> error + row list"
  retrieve_data :: "string list \<Rightarrow> string option \<Rightarrow> error + unit"
  Time :: "string \<Rightarrow> error + time"
  Time_array :: "string list \<Rightarrow> error + time list"
  loadtxt :: "string \<Rightarrow> string \<Rightarrow> nat list \<Rightarrow> nat \<Rightarrow> error + ndarray"

text \<open>
  The effects of a method: the texts printed, one entry for each \<^verbatim>\<open>print\<close> call, and
  the calls of \<^verbatim>\<open>retrieve_data\<close> issued, each with its datasets and its destination
  (\<open>None\<close> when the call passes no destination).
\<close>

record world =
  stdout :: "string list"
  retrieved :: "(string list \<times> string option) list"

definition print :: "string \<Rightarrow> world \<Rightarrow> world" where
  "print s w = w\<lparr>stdout := stdout w @ [s]\<rparr>"

text \<open>\<^verbatim>\<open>self.instruments\<close> (line 27).\<close>

definition instruments :: "string list" where
  "instruments = [''FEROS'', ''UVES'', ''HARPS'', ''ESPRESSO'']"

subsection \<open>Python truthiness of the optional arguments\<close>

text \<open>\<^verbatim>\<open>if s:\<close> on a string argument that defaults to \<^verbatim>\<open>None\<close>.\<close>

definition truthy_str :: "string option \<Rightarrow> bool" where
  "truthy_str s = (case s of None \<Rightarrow> False | Some v \<Rightarrow> v \<noteq> [])"

text \<open>\<^verbatim>\<open>if x:\<close> on a number argument that defaults to \<^verbatim>\<open>None\<close>.\<close>

definition truthy_num :: "real option \<Rightarrow> bool" where
  "truthy_num x = (case x of None \<Rightarrow> False | Some v \<Rightarrow> v \<noteq> 0)"

text \<open>The string held by an argument; it is read only where the argument is truthy.\<close>

definition str_value :: "string option \<Rightarrow> string" where
  "str_value s = (case s of None \<Rightarrow> [] | Some v \<Rightarrow> v)"

text \<open>The number held by an argument; it is read only where the argument is truthy.\<close>

definition num_value :: "real option \<Rightarrow> real" where
  "num_value x = (case x of None \<Rightarrow> 0 | Some v \<Rightarrow> v)"

text \<open>
  Lines 107-109 (and 170-172): \<^verbatim>\<open>if not date: date = Time('1990-01-23')\<close> followed by
  \<^verbatim>\<open>date = Time(date)\<close>; \<^verbatim>\<open>Time\<close> of a time is that time.
\<close>

definition date_or_default :: "env \<Rightarrow> string option \<Rightarrow> error + time" where
  "date_or_default e date =
     (if \<not> truthy_str date then Time e ''1990-01-23'' else Time e (str_value date))"

text \<open>Lines 110-111 (and 198-199): \<^verbatim>\<open>if not SNR: SNR = 30\<close>.\<close>

definition SNR_or_default :: "real option \<Rightarrow> real" where
  "SNR_or_default SNR =
     (if \<not> truthy_num SNR then 30 else num_value SNR)"

subsection \<open>Table operations\<close>

text \<open>
  \<^verbatim>\<open>table.remove_rows(mask)\<close> with a boolean mask deletes the rows at which the mask
  is true; a mask whose length is not the number of rows raises \<^verbatim>\<open>IndexError\<close>.
\<close>

definition remove_rows :: "bool list \<Rightarrow> 'a list \<Rightarrow> error + 'a list" where
  "remove_rows flags rows =
     (if length flags = length rows
      then Inr (map snd (filter (\<lambda>(m, r). \<not> m) (zip flags rows)))
      else Inl IndexError)"

subsection \<open>\<^verbatim>\<open>searchStar\<close> (lines 85-121)\<close>

definition searchStar ::
  "env \<Rightarrow> string \<Rightarrow> string option \<Rightarrow> string option \<Rightarrow> real option \<Rightarrow> error + row list" where
  "searchStar e star instrument date SNR =
     (case date_or_default e date of
        Inl err \<Rightarrow> Inl err
      | Inr d \<Rightarrow>
          (case (if truthy_str instrument
                 then query_surveys e (SurveyName (str_value instrument)) star
                 else query_surveys e (SurveyList instruments) star) of
             Inl err \<Rightarrow> Inl err
           | Inr search \<Rightarrow>
               (case Time_array e (map Date_Obs search) of
                  Inl err \<Rightarrow> Inl err
                | Inr ts \<Rightarrow>
                    (case remove_rows (map (\<lambda>t. t < d) ts) search of
                       Inl err \<Rightarrow> Inl err
                     | Inr search1 \<Rightarrow>
                         remove_rows
                           (map (\<lambda>r. float_lt (SNR_spectra r) (SNR_or_default SNR)) search1)
                           search1))))"

subsection \<open>\<^verbatim>\<open>searchByDate\<close> (lines 151-175) and \<^verbatim>\<open>searchBySNR\<close> (lines 178-202)\<close>

definition searchByDate ::
  "env \<Rightarrow> string \<Rightarrow> string option \<Rightarrow> string option \<Rightarrow> error + row list" where
  "searchByDate e star instrument date =
     (case date_or_default e date of
        Inl err \<Rightarrow> Inl err
      | Inr d \<Rightarrow>
          (case searchStar e star instrument None None of
             Inl err \<Rightarrow> Inl err
           | Inr search \<Rightarrow>
               (case Time_array e (map Date_Obs search) of
                  Inl err \<Rightarrow> Inl err
                | Inr ts \<Rightarrow> remove_rows (map (\<lambda>t. t < d) ts) search)))"


subsection \<open>\<^verbatim>\<open>searchInstruments\<close> (lines 30-53)\<close>

text \<open>
  \<^verbatim>\<open>np.unique(a, return_counts=True)\<close>: the sorted distinct values of \<open>a\<close> and, for
  each, the number of its occurrences.
\<close>

definition np_unique :: "string list \<Rightarrow> string list \<times> int list" where
  "np_unique a =
     (let u = sort (remdups a) in (u, map (\<lambda>v. int (count_list a v)) u))"

definition searchInstruments :: "env \<Rightarrow> string \<Rightarrow> error + (string \<rightharpoonup> int)" where
  "searchInstruments e star =
     (case query_main e star of
        Inl err \<Rightarrow> Inl err
      | Inr searchResult \<Rightarrow>
          (let insts = np_unique searchResult
           in Inr (fold (\<lambda>(i, j) instrumentDict. instrumentDict(j \<mapsto> snd insts ! i))
                     (enumerate 0 (fst insts)) Map.empty)))"

subsection \<open>\<^verbatim>\<open>searchInstrumentSpectra\<close> (lines 56-82)\<close>

text \<open>\<^verbatim>\<open>np.sum(column == v)\<close>: the number of entries of the column equal to \<open>v\<close>.\<close>

definition sum_equal :: "string list \<Rightarrow> string \<Rightarrow> int" where
  "sum_equal column v = sum_list (map (\<lambda>x. if x = v then 1 else 0) column)"

definition searchInstrumentSpectra ::
  "env \<Rightarrow> string \<Rightarrow> string option \<Rightarrow> error + (string \<rightharpoonup> int)" where
  "searchInstrumentSpectra e star instrument =
     (case searchStar e star None None None of
        Inl err \<Rightarrow> Inl err
      | Inr search \<Rightarrow>
          (if truthy_str instrument
           then Inr (Map.empty(str_value instrument \<mapsto>
                       sum_equal (map Instrument search) (str_value instrument)))
           else Inr (fold (\<lambda>j instrumentDict.
                             instrumentDict(j \<mapsto> sum_equal (map Instrument search) j))
                       instruments Map.empty)))"

subsection \<open>\<^verbatim>\<open>_searchAndDownload\<close> (lines 205-213)\<close>

definition searchAndDownload ::
  "env \<Rightarrow> string \<Rightarrow> string option \<Rightarrow> string option \<Rightarrow> string option \<Rightarrow> real option \<Rightarrow>
   world \<Rightarrow> (error + unit) \<times> world" where
  "searchAndDownload e star instrument downloadPath date SNR w =
     (case searchStar e star instrument date SNR of
        Inl err \<Rightarrow> (Inl err, w)
      | Inr search \<Rightarrow>
          (let starARCFILE = map ARCFILE search
           in if truthy_str downloadPath
              then (retrieve_data e starARCFILE (Some (str_value downloadPath)),
                    w\<lparr>retrieved := retrieved w @ [(starARCFILE, Some (str_value downloadPath))]\<rparr>)
              else (retrieve_data e starARCFILE None,
                    w\<lparr>retrieved := retrieved w @ [(starARCFILE, None)]\<rparr>)))"

subsection \<open>The download methods (lines 216-393)\<close>

definition newline :: string where
  "newline = [CHR 0x0A]"

definition searching_msg :: "string \<Rightarrow> string" where
  "searching_msg j = newline @ ''*** Searching for '' @ j @ '' results ***'' @ newline"

definition no_data_msg :: "string \<Rightarrow> string" where
  "no_data_msg j = ''No '' @ j @ '' data'' @ newline"

definition done_msg :: string where
  "done_msg = newline @ ''*** Done ***'' @ newline"

text \<open>
  The loop that \<^verbatim>\<open>_getData\<close>, \<^verbatim>\<open>getALLdata\<close> and the four \<^verbatim>\<open>get...data\<close> methods
  share word for word, over the instruments still to visit. An exception raised by
  \<^verbatim>\<open>_searchAndDownload\<close> leaves the loop and the method.
\<close>

fun download_loop ::
  "env \<Rightarrow> (string \<rightharpoonup> int) \<Rightarrow> string \<Rightarrow> string option \<Rightarrow> string option \<Rightarrow> real option \<Rightarrow>
   string list \<Rightarrow> world \<Rightarrow> (error + unit) \<times> world" where
  "download_loop e checkInstruments star downloadPath date SNR [] w = (Inr (), w)"
| "download_loop e checkInstruments star downloadPath date SNR (j # js) w =
     (let w1 = print (searching_msg j) w
      in if checkInstruments j \<noteq> None
         then (case searchAndDownload e star (Some j) downloadPath date SNR w1 of
                 (Inl err, w2) \<Rightarrow> (Inl err, w2)
               | (Inr u, w2) \<Rightarrow>
                   download_loop e checkInstruments star downloadPath date SNR js w2)
         else download_loop e checkInstruments star downloadPath date SNR js
                (print (no_data_msg j) w1))"

text \<open>
  The body of each of the six methods: the discovery query, the loop over the
  method's instruments, the final notice.
\<close>

definition download_method ::
  "string list \<Rightarrow> env \<Rightarrow> string \<Rightarrow> string option \<Rightarrow> string option \<Rightarrow> real option \<Rightarrow>
   world \<Rightarrow> (error + unit) \<times> world" where
  "download_method js e star downloadPath date SNR w =
     (case searchInstruments e star of
        Inl err \<Rightarrow> (Inl err, w)
      | Inr checkInstruments \<Rightarrow>
          (case download_loop e checkInstruments star downloadPath date SNR js w of
             (Inl err, w1) \<Rightarrow> (Inl err, w1)
           | (Inr u, w1) \<Rightarrow> (Inr (), print done_msg w1)))"

definition getData ::
  "env \<Rightarrow> string \<Rightarrow> string \<Rightarrow> string option \<Rightarrow> string option \<Rightarrow> real option \<Rightarrow>
   world \<Rightarrow> (error + unit) \<times> world" where
  "getData e star instrument = download_method [instrument] e star"

definition getALLdata ::
  "env \<Rightarrow> string \<Rightarrow> string option \<Rightarrow> string option \<Rightarrow> real option \<Rightarrow>
   world \<Rightarrow> (error + unit) \<times> world" where
  "getALLdata = download_method instruments"

definition getFEROSdata ::
  "env \<Rightarrow> string \<Rightarrow> string option \<Rightarrow> string option \<Rightarrow> real option \<Rightarrow>
   world \<Rightarrow> (error + unit) \<times> world" where
  "getFEROSdata = download_method [''FEROS'']"

definition getUVESdata ::
  "env \<Rightarrow> string \<Rightarrow> string option \<Rightarrow> string option \<Rightarrow> real option \<Rightarrow>
   world \<Rightarrow> (error + unit) \<times> world" where
  "getUVESdata = download_method [''UVES'']"

definition getHARPSdata ::
  "env \<Rightarrow> string \<Rightarrow> string option \<Rightarrow> string option \<Rightarrow> real option \<Rightarrow>
   world \<Rightarrow> (error + unit) \<times> world" where
  "getHARPSdata = download_method [''HARPS'']"

definition getESPRESSOdata ::
  "env \<Rightarrow> string \<Rightarrow> string option \<Rightarrow> string option \<Rightarrow> real option \<Rightarrow>
   world \<Rightarrow> (error + unit) \<times> world" where
  "getESPRESSOdata = download_method [''ESPRESSO'']"

subsection \<open>\<^verbatim>\<open>readList\<close> (lines 396-424)\<close>

definition star_msg :: "string \<Rightarrow> string" where
  "star_msg j = ''*** '' @ j @ '' ***''"

definition not_found_msg :: string where
  "not_found_msg = ''     Star not found in archive!'' @ newline"

text \<open>
  The loop over the names read. The bare \<^verbatim>\<open>except:\<close> catches whatever
  \<^verbatim>\<open>searchStar\<close> raises; the result of a successful search is dropped.
\<close>

fun readList_loop ::
  "env \<Rightarrow> string option \<Rightarrow> string option \<Rightarrow> real option \<Rightarrow> string list \<Rightarrow> world \<Rightarrow> world" where
  "readList_loop e instrument date SNR [] w = w"
| "readList_loop e instrument date SNR (j # js) w =
     (let w1 = print (star_msg j) w
      in case searchStar e j instrument date SNR of
           Inr star \<Rightarrow> readList_loop e instrument date SNR js (print [] w1)
         | Inl err \<Rightarrow> readList_loop e instrument date SNR js (print not_found_msg w1))"

text \<open>
  The file read is the literal \<^verbatim>\<open>'WEBSITE_online.rdb'\<close> of line 414; the parameter
  \<open>filename\<close> does not occur in the body. The \<^verbatim>\<open>for\<close> statement of line 417 is
  outside the \<^verbatim>\<open>try\<close>: over a 0-d array it raises \<^verbatim>\<open>TypeError\<close> before
  anything is printed.
\<close>

definition readList ::
  "env \<Rightarrow> string \<Rightarrow> string option \<Rightarrow> string option \<Rightarrow> string option \<Rightarrow> real option \<Rightarrow>
   world \<Rightarrow> (error + ndarray) \<times> world" where
  "readList e filename instrument downloadPath date SNR w =
     (case loadtxt e ''WEBSITE_online.rdb'' [CHR 0x09] [0] 1 of
        Inl err \<Rightarrow> (Inl err, w)
      | Inr stars \<Rightarrow>
          (case stars of
             Array0 name \<Rightarrow> (Inl TypeError, w)
           | Array1 names \<Rightarrow> (Inr stars, readList_loop e instrument date SNR names w)))"

subsection \<open>Stub archives for the scenarios\<close>

text \<open>
  \<open>stub_env\<close>: two rows for the star \<open>X\<close> (signal-to-noise 25 and 35), one row of ratio
  25 for the star \<open>Z\<close>, one row whose ratio is NaN for the star \<open>N\<close>, a failing query for
  every other star. Times are modified Julian dates; a column converts when each entry
  does, and the empty column does not. The catalogue file holds three names, the second
  of which the archive does not know.
\<close>

definition row25 :: row where
  "row25 = \<lparr>Instrument = ''HARPS'', Date_Obs = ''2010-05-01'', SNR_spectra = Finite 25,
            ARCFILE = ''ADP.2014-09-16T11:03:30.940''\<rparr>"

definition row35 :: row where
  "row35 = \<lparr>Instrument = ''HARPS'', Date_Obs = ''2012-03-04'', SNR_spectra = Finite 35,
            ARCFILE = ''ADP.2014-09-17T11:21:44.687''\<rparr>"

definition rowNaN :: row where
  "rowNaN = \<lparr>Instrument = ''UVES'', Date_Obs = ''2012-03-04'', SNR_spectra = NaN,
             ARCFILE = ''ADP.2020-06-09T15:12:01.331''\<rparr>"

definition stub_Time :: "string \<Rightarrow> error + time" where
  "stub_Time s =
     (if s = ''1990-01-23'' then Inr 47914
      else if s = ''1989-12-31'' then Inr 47891
      else if s = ''2010-05-01'' then Inr 55317
      else if s = ''2012-03-04'' then Inr 55990
      else Inl TimeError)"

fun stub_Time_entries :: "string list \<Rightarrow> error + time list" where
  "stub_Time_entries [] = Inr []"
| "stub_Time_entries (s # ss) =
     (case stub_Time s of
        Inl err \<Rightarrow> Inl err
      | Inr t \<Rightarrow>
          (case stub_Time_entries ss of
             Inl err \<Rightarrow> Inl err
           | Inr ts \<Rightarrow> Inr (t # ts)))"

definition stub_Time_array :: "string list \<Rightarrow> error + time list" where
  "stub_Time_array column = (if column = [] then Inl TimeError else stub_Time_entries column)"

definition stub_env :: env where
  "stub_env =
     \<lparr>query_main = (\<lambda>star. if star = ''X'' then Inr [''HARPS'', ''HARPS'', ''CORALIE'']
                            else Inl ArchiveError),
      query_surveys = (\<lambda>s star. if star = ''X'' then Inr [row25, row35]
                                 else if star = ''Z'' then Inr [row25]
                                 else if star = ''N'' then Inr [rowNaN]
                                 else Inl ArchiveError),
      retrieve_data = (\<lambda>datasets destination. Inr ()),
      Time = stub_Time,
      Time_array = stub_Time_array,
      loadtxt = (\<lambda>fname delimiter usecols skiprows.
                   if fname = ''WEBSITE_online.rdb'' then Inr (squeeze [''X'', ''Y'', ''Z''])
                   else Inl FileError)\<rparr>"



text \<open>\<open>stub_env\<close> with a catalogue file of one data row.\<close>

definition stub_env_one_row :: env where
  "stub_env_one_row =
     stub_env\<lparr>loadtxt := (\<lambda>fname delimiter usecols skiprows. Inr (squeeze [''X'']))\<rparr>"

definition world0 :: world where
  "world0 = \<lparr>stdout = [], retrieved = []\<rparr>"

section \<open>Properties\<close>

subsection \<open>Removing rows\<close>

lemma remove_rows_Inr:
  "remove_rows flags rows = Inr R \<Longrightarrow>
   length flags = length rows \<and> R = map snd (filter (\<lambda>(m, r). \<not> m) (zip flags rows))"
  by (auto simp: remove_rows_def split: if_splits)

lemma remove_rows_map: "remove_rows (map P rows) rows = Inr (filter (\<lambda>r. \<not> P r) rows)"
proof -
  have "map snd (filter (\<lambda>(m, r). \<not> m) (zip (map P rows) rows)) = filter (\<lambda>r. \<not> P r) rows"
    by (induction rows) auto
  then show ?thesis by (simp add: remove_rows_def)
qed


lemma length_remove_rows:
  assumes "remove_rows flags rows = Inr R"
  shows "length R \<le> length rows"
proof -
  have "length (filter (\<lambda>(m, r). \<not> m) (zip flags rows)) \<le> length (zip flags rows)"
    by (rule length_filter_le)
  with remove_rows_Inr [OF assms] show ?thesis by simp
qed

subsection \<open>Float comparisons\<close>



subsection \<open>The defaults\<close>

lemma SNR_or_default_falsy:
  "SNR_or_default (Some 0) = 30" "SNR_or_default None = 30" "SNR_or_default (Some 30) = 30"
  by (simp_all add: SNR_or_default_def truthy_num_def num_value_def)


lemma date_or_default_falsy:
  "date_or_default e (Some []) = Time e ''1990-01-23''"
  "date_or_default e None = Time e ''1990-01-23''"
  "date_or_default e (Some ''1990-01-23'') = Time e ''1990-01-23''"
  by (simp_all add: date_or_default_def truthy_str_def str_value_def)

subsection \<open>\<^verbatim>\<open>searchStar\<close>\<close>

text \<open>
  What \<^verbatim>\<open>searchStar\<close> returns: the rows left by the date mask, then those of them
  left by the mask of the signal-to-noise ratio.
\<close>

lemma searchStar_result:
  assumes "searchStar e star instrument date SNR = Inr R"
  shows "\<exists>d search ts search1. date_or_default e date = Inr d \<and>
           (if truthy_str instrument
            then query_surveys e (SurveyName (str_value instrument)) star
            else query_surveys e (SurveyList instruments) star) = Inr search \<and>
           Time_array e (map Date_Obs search) = Inr ts \<and>
           remove_rows (map (\<lambda>t. t < d) ts) search = Inr search1 \<and>
           R = filter (\<lambda>r. \<not> float_lt (SNR_spectra r) (SNR_or_default SNR)) search1"
proof -
  let ?q = "if truthy_str instrument
            then query_surveys e (SurveyName (str_value instrument)) star
            else query_surveys e (SurveyList instruments) star"
  from assms obtain d where d: "date_or_default e date = Inr d"
    unfolding searchStar_def by (cases "date_or_default e date") simp_all
  from assms d obtain search where q: "?q = Inr search"
    unfolding searchStar_def by (cases ?q) simp_all
  from assms d q obtain ts where ts: "Time_array e (map Date_Obs search) = Inr ts"
    unfolding searchStar_def by (cases "Time_array e (map Date_Obs search)") simp_all
  from assms d q ts obtain search1 where
    s1: "remove_rows (map (\<lambda>t. t < d) ts) search = Inr search1"
    unfolding searchStar_def by (cases "remove_rows (map (\<lambda>t. t < d) ts) search") simp_all
  from assms d q ts s1
  have "remove_rows (map (\<lambda>r. float_lt (SNR_spectra r) (SNR_or_default SNR)) search1) search1 =
          Inr R"
    unfolding searchStar_def by simp
  then have "R = filter (\<lambda>r. \<not> float_lt (SNR_spectra r) (SNR_or_default SNR)) search1"
    by (simp add: remove_rows_map)
  with d q ts s1 show ?thesis by blast
qed

lemma searchStar_stub_X: "searchStar stub_env ''X'' None None None = Inr [row35]"
  by code_simp




text \<open>
  C10. \<^verbatim>\<open>searchStar\<close> treats a falsy \<open>SNR\<close> as absent: \<open>SNR = 0\<close> gives the result of
  \<open>SNR = 30\<close> (and of no \<open>SNR\<close>), and an empty date string gives the result of the date
  \<^verbatim>\<open>'1990-01-23'\<close> (and of no date).
\<close>

theorem searchStar_falsy_defaults:
  "searchStar e star instrument date (Some 0) = searchStar e star instrument date (Some 30) \<and>
   searchStar e star instrument date (Some 0) = searchStar e star instrument date None \<and>
   searchStar e star instrument (Some []) SNR =
     searchStar e star instrument (Some ''1990-01-23'') SNR \<and>
   searchStar e star instrument (Some []) SNR = searchStar e star instrument None SNR"
  unfolding searchStar_def SNR_or_default_falsy date_or_default_falsy by simp

subsection \<open>\<^verbatim>\<open>searchBySNR\<close>\<close>




subsection \<open>\<^verbatim>\<open>_searchAndDownload\<close>\<close>

text \<open>
  C8. When the table resolved by \<^verbatim>\<open>searchStar\<close> is empty, \<^verbatim>\<open>_searchAndDownload\<close>
  still issues exactly one \<^verbatim>\<open>retrieve_data\<close> call, with the empty list of datasets.
\<close>

theorem searchAndDownload_empty:
  assumes "searchStar e star instrument date SNR = Inr []"
  shows "retrieved (snd (searchAndDownload e star instrument downloadPath date SNR w)) =
           retrieved w @
             [([], if truthy_str downloadPath then Some (str_value downloadPath) else None)]"
  using assms by (simp add: searchAndDownload_def)

theorem searchAndDownload_empty_witness:
  "searchStar stub_env ''Z'' (Some ''HARPS'') None None = Inr [] \<and>
   retrieved (snd (searchAndDownload stub_env ''Z'' (Some ''HARPS'') None None None world0)) =
     [([], None)]"
proof -
  have h: "searchStar stub_env ''Z'' (Some ''HARPS'') None None = Inr []" by code_simp
  show ?thesis
    using h searchAndDownload_empty [OF h, of None world0]
    by (simp add: world0_def truthy_str_def)
qed

subsection \<open>\<^verbatim>\<open>readList\<close>\<close>

text \<open>
  C5. The result of \<^verbatim>\<open>readList\<close> does not depend on its \<open>filename\<close> argument: with
  the other arguments and the collaborators equal, two calls return the same names and
  have the same effects.
\<close>

theorem readList_ignores_filename:
  "readList e f1 instrument downloadPath date SNR w =
   readList e f2 instrument downloadPath date SNR w"
  by (simp add: readList_def)

subsection \<open>\<^verbatim>\<open>_remove_planet\<close>\<close>

text \<open>
  C2. The name \<^verbatim>\<open>'HD 1234.2'\<close> ends with \<^verbatim>\<open>'.2'\<close> and with no planet letter, and
  \<^verbatim>\<open>_remove_planet\<close> returns \<^verbatim>\<open>'HD 123'\<close>: three characters are cut where the
  suffix has two, so the result is not the name without its \<^verbatim>\<open>'.2'\<close>.
\<close>

theorem remove_planet_dot2_drops_three:
  "endswith ''HD 1234.2'' ''.2'' \<and> remove_planet_loop planets ''HD 1234.2'' = None \<and>
   remove_planet ''HD 1234.2'' = ''HD 123'' \<and> remove_planet ''HD 1234.2'' \<noteq> ''HD 1234''"
  by code_simp

subsection \<open>\<^verbatim>\<open>searchInstrumentSpectra\<close>\<close>

lemma searchStar_length:
  assumes "searchStar e star instrument date SNR = Inr R"
    and "(if truthy_str instrument
            then query_surveys e (SurveyName (str_value instrument)) star
            else query_surveys e (SurveyList instruments) star) = Inr search"
  shows "length R \<le> length search"
proof -
  from searchStar_result [OF assms(1)] assms(2)
  obtain flags search1 P where s1: "remove_rows flags search = Inr search1"
    and R: "R = filter P search1"
    by auto
  from R have "length R \<le> length search1" by simp
  also from s1 have "\<dots> \<le> length search" by (rule length_remove_rows)
  finally show ?thesis .
qed

lemma sum_equal_Cons:
  "sum_equal (x # column) v = (if x = v then 1 else 0) + sum_equal column v"
  by (simp add: sum_equal_def)

lemma sum_equal_nonneg: "0 \<le> sum_equal column v"
  by (induction column) (simp_all add: sum_equal_def)

lemma sum_equal_four:
  "sum_equal column ''FEROS'' + sum_equal column ''UVES'' + sum_equal column ''HARPS'' +
   sum_equal column ''ESPRESSO'' \<le> int (length column)"
proof (induction column)
  case Nil
  show ?case by (simp add: sum_equal_def)
next
  case (Cons x column)
  have "(if x = ''FEROS'' then 1 else 0) + (if x = ''UVES'' then 1 else 0) +
        (if x = ''HARPS'' then 1 else 0) + (if x = ''ESPRESSO'' then 1 else (0::int)) \<le> 1"
    by auto
  with Cons show ?case by (simp add: sum_equal_Cons)
qed

lemma searchInstrumentSpectra_None:
  assumes "searchInstrumentSpectra e star None = Inr m"
  shows "\<exists>R. searchStar e star None None None = Inr R \<and>
     m = [''FEROS'' \<mapsto> sum_equal (map Instrument R) ''FEROS'',
          ''UVES'' \<mapsto> sum_equal (map Instrument R) ''UVES'',
          ''HARPS'' \<mapsto> sum_equal (map Instrument R) ''HARPS'',
          ''ESPRESSO'' \<mapsto> sum_equal (map Instrument R) ''ESPRESSO'']"
proof (cases "searchStar e star None None None")
  case (Inl err)
  with assms show ?thesis by (simp add: searchInstrumentSpectra_def)
next
  case (Inr R)
  with assms have "m = fold (\<lambda>j instrumentDict.
                             instrumentDict(j \<mapsto> sum_equal (map Instrument R) j))
                       instruments Map.empty"
    by (simp add: searchInstrumentSpectra_def truthy_str_def)
  then show ?thesis using Inr by (simp add: instruments_def)
qed

lemma searchInstrumentSpectra_Some:
  assumes "searchInstrumentSpectra e star (Some i) = Inr m" and "i \<noteq> []"
  shows "\<exists>R. searchStar e star None None None = Inr R \<and>
     m = [i \<mapsto> sum_equal (map Instrument R) i]"
proof (cases "searchStar e star None None None")
  case (Inl err)
  with assms show ?thesis by (simp add: searchInstrumentSpectra_def)
next
  case (Inr R)
  with assms show ?thesis
    by (simp add: searchInstrumentSpectra_def truthy_str_def str_value_def)
qed


text \<open>
  C6 (as amended). \<^verbatim>\<open>searchInstrumentSpectra(star)\<close> with no instrument returns a map
  whose keys are exactly the four recognized instruments, every count is non-negative,
  and the four counts add up to at most the number of rows of the survey query for the
  star. With an instrument that is a non-empty string the map has exactly that one key;
  an instrument that is the empty string is treated as absent, and the result is that
  of the call with no instrument.
\<close>

theorem searchInstrumentSpectra_keys:
  "(searchInstrumentSpectra e star None = Inr m \<longrightarrow>
      dom m = set instruments \<and>
      (\<forall>j c. m j = Some c \<longrightarrow> 0 \<le> c) \<and>
      (\<forall>search. query_surveys e (SurveyList instruments) star = Inr search \<longrightarrow>
         (\<Sum>j\<leftarrow>instruments. case m j of Some c \<Rightarrow> c | None \<Rightarrow> 0) \<le> int (length search))) \<and>
   (i \<noteq> [] \<and> searchInstrumentSpectra e star (Some i) = Inr m' \<longrightarrow>
      dom m' = {i} \<and> (\<forall>c. m' i = Some c \<longrightarrow> 0 \<le> c)) \<and>
   searchInstrumentSpectra e star (Some []) = searchInstrumentSpectra e star None"
proof (intro conjI impI allI)
  have f: "truthy_str (Some []) = False" "truthy_str None = False"
    by (simp_all add: truthy_str_def)
  show "searchInstrumentSpectra e star (Some []) = searchInstrumentSpectra e star None"
    by (simp only: searchInstrumentSpectra_def f if_False)
next
  assume a: "searchInstrumentSpectra e star None = Inr m"
  from searchInstrumentSpectra_None [OF a]
  obtain R where R: "searchStar e star None None None = Inr R"
    and m: "m = [''FEROS'' \<mapsto> sum_equal (map Instrument R) ''FEROS'',
                 ''UVES'' \<mapsto> sum_equal (map Instrument R) ''UVES'',
                 ''HARPS'' \<mapsto> sum_equal (map Instrument R) ''HARPS'',
                 ''ESPRESSO'' \<mapsto> sum_equal (map Instrument R) ''ESPRESSO'']"
    by blast
  show "dom m = set instruments" unfolding m instruments_def by auto
  show "0 \<le> c" if "m j = Some c" for j c
    using that sum_equal_nonneg [of "map Instrument R"] unfolding m
    by (auto split: if_splits)
  show "(\<Sum>j\<leftarrow>instruments. case m j of Some c \<Rightarrow> c | None \<Rightarrow> 0) \<le> int (length search)"
    if q: "query_surveys e (SurveyList instruments) star = Inr search" for search
  proof -
    have "(\<Sum>j\<leftarrow>instruments. case m j of Some c \<Rightarrow> c | None \<Rightarrow> 0) =
       sum_equal (map Instrument R) ''FEROS'' + sum_equal (map Instrument R) ''UVES'' +
       sum_equal (map Instrument R) ''HARPS'' + sum_equal (map Instrument R) ''ESPRESSO''"
      unfolding m instruments_def by simp
    also have "\<dots> \<le> int (length (map Instrument R))" by (rule sum_equal_four)
    also have "\<dots> \<le> int (length search)"
      using searchStar_length [OF R, of search] q by (simp add: truthy_str_def)
    finally show ?thesis .
  qed
next
  assume b: "i \<noteq> [] \<and> searchInstrumentSpectra e star (Some i) = Inr m'"
  then have b1: "i \<noteq> []" and b2: "searchInstrumentSpectra e star (Some i) = Inr m'"
    by simp_all
  from searchInstrumentSpectra_Some [OF b2 b1]
  obtain R where "searchStar e star None None None = Inr R"
    and m': "m' = [i \<mapsto> sum_equal (map Instrument R) i]"
    by (elim exE conjE)
  show "dom m' = {i}" unfolding m' by simp
  show "0 \<le> c" if "m' i = Some c" for c
    using that sum_equal_nonneg [of "map Instrument R" i] unfolding m' by simp
qed


lemma searchInstrumentSpectra_stub_None:
  "searchInstrumentSpectra stub_env ''X'' None =
     Inr [''FEROS'' \<mapsto> 0, ''UVES'' \<mapsto> 0, ''HARPS'' \<mapsto> 1, ''ESPRESSO'' \<mapsto> 0]"
  by (simp add: searchInstrumentSpectra_def searchStar_stub_X truthy_str_def instruments_def
        sum_equal_def row35_def)

lemma searchInstrumentSpectra_stub_HARPS:
  "searchInstrumentSpectra stub_env ''X'' (Some ''HARPS'') = Inr [''HARPS'' \<mapsto> 1]"
  by (simp add: searchInstrumentSpectra_def searchStar_stub_X truthy_str_def str_value_def
        sum_equal_def row35_def)

text \<open>
  C6, the claim as stated fails for an instrument that is given but empty: the test
  \<^verbatim>\<open>if instrument:\<close> sends the empty string to the branch of the four instruments, and
  the map returned has the four keys, not the single key \<^verbatim>\<open>''\<close>.
\<close>

theorem searchInstrumentSpectra_empty_instrument:
  "searchInstrumentSpectra stub_env ''X'' (Some []) =
     Inr [''FEROS'' \<mapsto> 0, ''UVES'' \<mapsto> 0, ''HARPS'' \<mapsto> 1, ''ESPRESSO'' \<mapsto> 0] \<and>
   dom [''FEROS'' \<mapsto> 0::int, ''UVES'' \<mapsto> 0, ''HARPS'' \<mapsto> 1, ''ESPRESSO'' \<mapsto> 0] \<noteq> {[]}"
  by (simp add: searchInstrumentSpectra_def searchStar_stub_X truthy_str_def instruments_def
        sum_equal_def row35_def)

theorem searchInstrumentSpectra_keys_witness:
  "searchInstrumentSpectra stub_env ''X'' None =
     Inr [''FEROS'' \<mapsto> 0, ''UVES'' \<mapsto> 0, ''HARPS'' \<mapsto> 1, ''ESPRESSO'' \<mapsto> 0] \<and>
   dom [''FEROS'' \<mapsto> 0::int, ''UVES'' \<mapsto> 0, ''HARPS'' \<mapsto> 1, ''ESPRESSO'' \<mapsto> 0] =
     set instruments \<and>
   query_surveys stub_env (SurveyList instruments) ''X'' = Inr [row25, row35] \<and>
   (\<Sum>j\<leftarrow>instruments.
      case [''FEROS'' \<mapsto> 0::int, ''UVES'' \<mapsto> 0, ''HARPS'' \<mapsto> 1, ''ESPRESSO'' \<mapsto> 0] j of
        Some c \<Rightarrow> c | None \<Rightarrow> 0) \<le> int (length [row25, row35]) \<and>
   searchInstrumentSpectra stub_env ''X'' (Some ''HARPS'') = Inr [''HARPS'' \<mapsto> 1] \<and>
   dom [''HARPS'' \<mapsto> 1::int] = {''HARPS''} \<and>
   searchInstrumentSpectra stub_env ''X'' (Some []) = searchInstrumentSpectra stub_env ''X'' None"
proof -
  have q: "query_surveys stub_env (SurveyList instruments) ''X'' = Inr [row25, row35]"
    by (simp add: stub_env_def)
  have ne: "''HARPS'' \<noteq> []" by simp
  note k = searchInstrumentSpectra_keys [of stub_env "''X''"
      "[''FEROS'' \<mapsto> 0, ''UVES'' \<mapsto> 0, ''HARPS'' \<mapsto> 1, ''ESPRESSO'' \<mapsto> 0]" "''HARPS''"
      "[''HARPS'' \<mapsto> 1]"]
  note k1 = k [THEN conjunct1, THEN mp, OF searchInstrumentSpectra_stub_None]
  note k2 = k1 [THEN conjunct2, THEN conjunct2, THEN spec, THEN mp, OF q]
  note k3 = k [THEN conjunct2, THEN conjunct1, THEN mp,
      OF conjI [OF ne searchInstrumentSpectra_stub_HARPS], THEN conjunct1]
  note k4 = k [THEN conjunct2, THEN conjunct2]
  from searchInstrumentSpectra_stub_None k1 [THEN conjunct1] q k2
    searchInstrumentSpectra_stub_HARPS k3 k4
  show ?thesis by (intro conjI)
qed

subsection \<open>\<^verbatim>\<open>_remove_planet\<close>: the reference examples\<close>

lemma remove_planet_loop_None:
  "remove_planet_loop ps name = None \<longleftrightarrow> (\<forall>p \<in> set ps. \<not> endswith name ('' '' @ [p]))"
  by (induction ps) auto

text \<open>
  C9. \<^verbatim>\<open>_remove_planet\<close> is a function of the name alone, with
  \<^verbatim>\<open>_remove_planet("51 Peg b") = "51 Peg"\<close>, \<^verbatim>\<open>_remove_planet("HD 1234.01") = "HD 1234"\<close>
  and \<^verbatim>\<open>_remove_planet("Vega") = "Vega"\<close>; a name that ends with none of the recognized
  suffixes is returned unchanged.
\<close>

theorem remove_planet_examples:
  "remove_planet ''51 Peg b'' = ''51 Peg'' \<and>
   remove_planet ''HD 1234.01'' = ''HD 1234'' \<and>
   remove_planet ''Vega'' = ''Vega'' \<and>
   ((\<forall>p \<in> set planets. \<not> endswith name ('' '' @ [p])) \<and>
    \<not> endswith name ''.01'' \<and> \<not> endswith name ''.02'' \<and> \<not> endswith name ''.2'' \<longrightarrow>
      remove_planet name = name)"
proof (intro conjI impI)
  show "remove_planet ''51 Peg b'' = ''51 Peg''" by code_simp
  show "remove_planet ''HD 1234.01'' = ''HD 1234''" by code_simp
  show "remove_planet ''Vega'' = ''Vega''" by code_simp
  assume h: "(\<forall>p \<in> set planets. \<not> endswith name ('' '' @ [p])) \<and>
    \<not> endswith name ''.01'' \<and> \<not> endswith name ''.02'' \<and> \<not> endswith name ''.2''"
  then have "\<forall>p \<in> set planets. \<not> endswith name ('' '' @ [p])"
    by (rule conjunct1)
  then have "remove_planet_loop planets name = None"
    by (rule remove_planet_loop_None [THEN iffD2])
  with h show "remove_planet name = name" by (simp add: remove_planet_def)
qed

theorem remove_planet_examples_witness:
  "\<not> endswith ''Sirius'' ''.01'' \<and> \<not> endswith ''Sirius'' ''.02'' \<and>
   \<not> endswith ''Sirius'' ''.2'' \<and> remove_planet ''Sirius'' = ''Sirius''"
proof -
  have h: "(\<forall>p \<in> set planets. \<not> endswith ''Sirius'' ('' '' @ [p])) \<and>
    \<not> endswith ''Sirius'' ''.01'' \<and> \<not> endswith ''Sirius'' ''.02'' \<and>
    \<not> endswith ''Sirius'' ''.2''"
    by code_simp
  from remove_planet_examples [of "''Sirius''", THEN conjunct2, THEN conjunct2, THEN conjunct2,
      THEN mp, OF h] h
  show ?thesis by (intro conjI) (elim conjE, assumption)+
qed

subsection \<open>\<^verbatim>\<open>readList\<close>: names returned and notices printed\<close>

lemma stdout_print [simp]: "stdout (print s w) = stdout w @ [s]"
  by (simp add: print_def)

lemma retrieved_print [simp]: "retrieved (print s w) = retrieved w"
  by (simp add: print_def)

lemma star_msg_not_notice: "star_msg j \<noteq> not_found_msg"
  by (simp add: star_msg_def not_found_msg_def)

lemma empty_not_notice: "[] \<noteq> not_found_msg"
  by (simp add: not_found_msg_def)

lemma readList_loop_effects:
  "stdout (readList_loop e instrument date SNR stars w) =
     stdout w @ concat (map (\<lambda>j. [star_msg j,
        if isl (searchStar e j instrument date SNR) then not_found_msg else []]) stars) \<and>
   retrieved (readList_loop e instrument date SNR stars w) = retrieved w"
proof (induction stars arbitrary: w)
  case Nil
  show ?case by simp
next
  case (Cons j js)
  show ?case
  proof (cases "searchStar e j instrument date SNR")
    case (Inl err)
    then show ?thesis using Cons [of "print not_found_msg (print (star_msg j) w)"]
      by (simp add: Let_def)
  next
    case (Inr star)
    then show ?thesis using Cons [of "print [] (print (star_msg j) w)"]
      by (simp add: Let_def)
  qed
qed

lemma count_notices:
  "count_list (concat (map (\<lambda>j. [star_msg j, if F j then not_found_msg else []]) stars))
      not_found_msg = length (filter F stars)"
  using star_msg_not_notice empty_not_notice by (induction stars) auto

lemma squeeze_Array1: "length stars \<noteq> 1 \<Longrightarrow> squeeze stars = Array1 stars"
  by (cases stars rule: squeeze.cases) simp_all

text \<open>
  X1. When the catalogue yields the names \<open>stars\<close>, and not exactly one of them,
  \<^verbatim>\<open>readList\<close> returns all of them and does not raise, whatever the per-star searches
  do: it prints the header of each star followed by an empty line when the search
  succeeded and by the notice when it raised, so the notices printed are as many as the
  failing names; nothing is downloaded.
\<close>

theorem readList_returns_all_names:
  assumes "loadtxt e ''WEBSITE_online.rdb'' [CHR 0x09] [0] 1 = Inr (squeeze stars)"
    and "length stars \<noteq> 1"
  shows "fst (readList e filename instrument downloadPath date SNR w) = Inr (Array1 stars) \<and>
    stdout (snd (readList e filename instrument downloadPath date SNR w)) =
      stdout w @ concat (map (\<lambda>j. [star_msg j,
        if isl (searchStar e j instrument date SNR) then not_found_msg else []]) stars) \<and>
    count_list (drop (length (stdout w))
        (stdout (snd (readList e filename instrument downloadPath date SNR w)))) not_found_msg =
      length (filter (\<lambda>j. isl (searchStar e j instrument date SNR)) stars) \<and>
    retrieved (snd (readList e filename instrument downloadPath date SNR w)) = retrieved w"
  using assms
  by (simp add: readList_def squeeze_Array1 readList_loop_effects count_notices)

theorem readList_returns_all_names_witness:
  "fst (readList stub_env ''catalogue.rdb'' None None None None world0) =
     Inr (Array1 [''X'', ''Y'', ''Z'']) \<and>
   count_list (stdout (snd (readList stub_env ''catalogue.rdb'' None None None None world0)))
     not_found_msg = 1"
proof -
  have l: "loadtxt stub_env ''WEBSITE_online.rdb'' [CHR 0x09] [0] 1 =
      Inr (squeeze [''X'', ''Y'', ''Z''])"
    by (simp add: stub_env_def)
  have n: "length [''X'', ''Y'', ''Z''] \<noteq> 1" by simp
  have s: "searchStar stub_env ''X'' None None None = Inr [row35]"
      "searchStar stub_env ''Y'' None None None = Inl ArchiveError"
      "searchStar stub_env ''Z'' None None None = Inr []"
    by code_simp+
  have w: "stdout world0 = []" by (simp add: world0_def)
  from readList_returns_all_names [OF l n, of "''catalogue.rdb''" None None None None world0]
  show ?thesis
    by (simp add: s w star_msg_not_notice star_msg_not_notice [THEN not_sym]
          empty_not_notice empty_not_notice [THEN not_sym])
qed

text \<open>
  C4. For a catalogue file with a single data row \<^verbatim>\<open>np.loadtxt\<close> returns a 0-d array,
  and \<^verbatim>\<open>readList\<close> raises \<^verbatim>\<open>TypeError\<close> at its \<^verbatim>\<open>for\<close> statement: the name is
  not returned and nothing is printed, although the search for this star succeeds.
\<close>

theorem readList_one_row_raises:
  "loadtxt stub_env_one_row ''WEBSITE_online.rdb'' [CHR 0x09] [0] 1 = Inr (squeeze [''X'']) \<and>
   searchStar stub_env_one_row ''X'' None None None = Inr [row35] \<and>
   readList stub_env_one_row ''catalogue.rdb'' None None None None world0 =
     (Inl TypeError, world0)"
proof (intro conjI)
  show "loadtxt stub_env_one_row ''WEBSITE_online.rdb'' [CHR 0x09] [0] 1 = Inr (squeeze [''X''])"
    by (simp add: stub_env_one_row_def)
  show "searchStar stub_env_one_row ''X'' None None None = Inr [row35]"
    by code_simp
  show "readList stub_env_one_row ''catalogue.rdb'' None None None None world0 =
     (Inl TypeError, world0)"
    by (simp add: readList_def stub_env_one_row_def)
qed

subsection \<open>The download methods\<close>

lemma searchAndDownload_Inl:
  "searchStar e star instrument date SNR = Inl err \<Longrightarrow>
   searchAndDownload e star instrument downloadPath date SNR w = (Inl err, w)"
  by (simp add: searchAndDownload_def)

lemma searchAndDownload_Inr:
  "searchStar e star instrument date SNR = Inr search \<Longrightarrow>
   searchAndDownload e star instrument downloadPath date SNR w =
     (retrieve_data e (map ARCFILE search)
        (if truthy_str downloadPath then Some (str_value downloadPath) else None),
      w\<lparr>retrieved := retrieved w @
          [(map ARCFILE search,
            if truthy_str downloadPath then Some (str_value downloadPath) else None)]\<rparr>)"
  by (simp add: searchAndDownload_def Let_def)

lemma download_loop_absent:
  "checkInstruments j = None \<Longrightarrow>
   download_loop e checkInstruments star downloadPath date SNR (j # js) w =
   download_loop e checkInstruments star downloadPath date SNR js
     (print (no_data_msg j) (print (searching_msg j) w))"
  by (simp add: Let_def)

text \<open>
  The \<^verbatim>\<open>retrieve_data\<close> calls of the loop: one for each instrument of an initial
  part of the instruments found in the discovery result, in their order (the loop ends
  early when a search or a retrieval raises).
\<close>

lemma download_loop_retrieved:
  "\<exists>js' rest. filter (\<lambda>j. checkInstruments j \<noteq> None) js = js' @ rest \<and>
     retrieved (snd (download_loop e checkInstruments star downloadPath date SNR js w)) =
       retrieved w @
       map (\<lambda>j. (case searchStar e star (Some j) date SNR of
                    Inr search \<Rightarrow> map ARCFILE search | Inl err \<Rightarrow> [],
                  if truthy_str downloadPath then Some (str_value downloadPath) else None)) js'"
  (is "\<exists>js' rest. ?P js js' rest w")
proof (induction js arbitrary: w)
  case Nil
  show ?case by simp
next
  case (Cons j js)
  let ?w1 = "print (searching_msg j) w"
  show ?case
  proof (cases "checkInstruments j = None")
    case True
    from Cons [of "print (no_data_msg j) ?w1"]
    obtain js' rest where "?P js js' rest (print (no_data_msg j) ?w1)" by blast
    with True have "?P (j # js) js' rest w"
      by (simp add: download_loop_absent)
    then show ?thesis by blast
  next
    case present: False
    show ?thesis
    proof (cases "searchStar e star (Some j) date SNR")
      case (Inl err)
      with present have "?P (j # js) [] (j # filter (\<lambda>j. checkInstruments j \<noteq> None) js) w"
        by (simp add: Let_def searchAndDownload_Inl)
      then show ?thesis by blast
    next
      case (Inr search)
      let ?dest = "if truthy_str downloadPath then Some (str_value downloadPath) else None"
      let ?w2 = "?w1\<lparr>retrieved := retrieved ?w1 @ [(map ARCFILE search, ?dest)]\<rparr>"
      show ?thesis
      proof (cases "retrieve_data e (map ARCFILE search) ?dest")
        case failed: (Inl err)
        with present Inr
        have "?P (j # js) [j] (filter (\<lambda>j. checkInstruments j \<noteq> None) js) w"
          by (simp add: Let_def searchAndDownload_Inr)
        then show ?thesis by blast
      next
        case ok: (Inr u)
        from Cons [of ?w2]
        obtain js' rest where IH: "?P js js' rest ?w2" by blast
        from present Inr ok
        have "download_loop e checkInstruments star downloadPath date SNR (j # js) w =
              download_loop e checkInstruments star downloadPath date SNR js ?w2"
          by (simp add: Let_def searchAndDownload_Inr)
        with IH present Inr have "?P (j # js) (j # js') rest w"
          by simp
        then show ?thesis by blast
      qed
    qed
  qed
qed

lemma fold_enumerate_dom:
  "dom (fold (\<lambda>(i, j) instrumentDict. instrumentDict(j \<mapsto> g i)) (enumerate n xs) m) =
     dom m \<union> set xs"
  by (induction xs arbitrary: n m) auto

lemma searchInstruments_dom:
  assumes "searchInstruments e star = Inr checkInstruments"
  shows "\<exists>column. query_main e star = Inr column \<and> dom checkInstruments = set column"
proof (cases "query_main e star")
  case (Inl err)
  with assms show ?thesis by (simp add: searchInstruments_def)
next
  case (Inr column)
  with assms have "checkInstruments =
      fold (\<lambda>(i, j) instrumentDict. instrumentDict(j \<mapsto> snd (np_unique column) ! i))
        (enumerate 0 (fst (np_unique column))) Map.empty"
    by (simp add: searchInstruments_def Let_def)
  then have "dom checkInstruments = set (fst (np_unique column))"
    by (simp only: fold_enumerate_dom) simp
  then show ?thesis using Inr by (simp add: np_unique_def Let_def)
qed


lemma no_data_msg_distinct:
  "searching_msg j \<noteq> no_data_msg j" "done_msg \<noteq> no_data_msg j"
  by (simp_all add: searching_msg_def no_data_msg_def done_msg_def newline_def)

text \<open>
  C7. When the discovery result of \<^verbatim>\<open>searchInstruments\<close> has no \<^verbatim>\<open>FEROS\<close> entry,
  \<^verbatim>\<open>getFEROSdata\<close> returns normally, issues no \<^verbatim>\<open>retrieve_data\<close> call and prints
  the search notice, one "No FEROS data" notice and the final notice. In every download
  method the \<^verbatim>\<open>retrieve_data\<close> calls issued are calls for instruments present in the
  discovery result.
\<close>

theorem getFEROSdata_no_FEROS:
  "(searchInstruments e star = Inr checkInstruments \<and> checkInstruments ''FEROS'' = None \<longrightarrow>
      getFEROSdata e star downloadPath date SNR w =
        (Inr (), w\<lparr>stdout := stdout w @
                    [searching_msg ''FEROS'', no_data_msg ''FEROS'', done_msg]\<rparr>) \<and>
      retrieved (snd (getFEROSdata e star downloadPath date SNR w)) = retrieved w \<and>
      count_list [searching_msg ''FEROS'', no_data_msg ''FEROS'', done_msg]
        (no_data_msg ''FEROS'') = 1) \<and>
   (searchInstruments e star = Inr checkInstruments \<longrightarrow>
      (\<exists>js' rest. filter (\<lambda>j. checkInstruments j \<noteq> None) js = js' @ rest \<and>
         retrieved (snd (download_method js e star downloadPath date SNR w)) =
           retrieved w @
           map (\<lambda>j. (case searchStar e star (Some j) date SNR of
                        Inr search \<Rightarrow> map ARCFILE search | Inl err \<Rightarrow> [],
                      if truthy_str downloadPath then Some (str_value downloadPath) else None))
             js'))"
proof (intro conjI impI)
  assume h: "searchInstruments e star = Inr checkInstruments \<and> checkInstruments ''FEROS'' = None"
  then show g: "getFEROSdata e star downloadPath date SNR w =
        (Inr (), w\<lparr>stdout := stdout w @
                    [searching_msg ''FEROS'', no_data_msg ''FEROS'', done_msg]\<rparr>)"
    by (simp add: getFEROSdata_def download_method_def Let_def print_def)
  show "retrieved (snd (getFEROSdata e star downloadPath date SNR w)) = retrieved w"
    by (simp add: g)
  show "count_list [searching_msg ''FEROS'', no_data_msg ''FEROS'', done_msg]
        (no_data_msg ''FEROS'') = 1"
    by (simp add: no_data_msg_distinct)
next
  assume s: "searchInstruments e star = Inr checkInstruments"
  let ?call = "\<lambda>j. (case searchStar e star (Some j) date SNR of
                        Inr search \<Rightarrow> map ARCFILE search | Inl err \<Rightarrow> [],
                      if truthy_str downloadPath then Some (str_value downloadPath) else None)"
  from download_loop_retrieved [of checkInstruments js e star downloadPath date SNR w]
  obtain js' rest where f: "filter (\<lambda>j. checkInstruments j \<noteq> None) js = js' @ rest"
    and r: "retrieved (snd (download_loop e checkInstruments star downloadPath date SNR js w)) =
       retrieved w @ map ?call js'"
    by (elim exE conjE)
  have "retrieved (snd (download_method js e star downloadPath date SNR w)) =
        retrieved (snd (download_loop e checkInstruments star downloadPath date SNR js w))"
    using s by (simp add: download_method_def split: prod.splits sum.splits)
  with f r show "\<exists>js' rest. filter (\<lambda>j. checkInstruments j \<noteq> None) js = js' @ rest \<and>
         retrieved (snd (download_method js e star downloadPath date SNR w)) =
           retrieved w @ map ?call js'"
    by (intro exI [of _ js'] exI [of _ rest]) simp
qed

theorem getFEROSdata_no_FEROS_witness:
  "getFEROSdata stub_env ''X'' None None None world0 =
     (Inr (), \<lparr>stdout = [searching_msg ''FEROS'', no_data_msg ''FEROS'', done_msg],
               retrieved = []\<rparr>)"
proof -
  obtain C where C: "searchInstruments stub_env ''X'' = Inr C"
    by (simp add: searchInstruments_def stub_env_def Let_def)
  from searchInstruments_dom [OF C]
  have "dom C = set [''HARPS'', ''HARPS'', ''CORALIE'']"
    by (simp add: stub_env_def)
  then have "''FEROS'' \<notin> dom C" by simp
  then have n: "C ''FEROS'' = None" by (simp add: domIff)
  from getFEROSdata_no_FEROS [of stub_env "''X''" C None None None world0, THEN conjunct1,
      THEN mp, OF conjI [OF C n], THEN conjunct1]
  show ?thesis by (simp add: world0_def)
qed

subsection \<open>\<^verbatim>\<open>_remove_planet\<close>: the three-character suffixes\<close>

text \<open>
  A name that ends with \<^verbatim>\<open>'.01'\<close> or \<^verbatim>\<open>'.02'\<close> ends with no planet letter, and
  loses exactly that suffix.
\<close>

lemma endswith_last:
  assumes "endswith name suf" and "suf \<noteq> []"
  shows "last name = last suf"
proof -
  from assms have "name = take (length name - length suf) name @ suf"
    unfolding endswith_def by (metis append_take_drop_id)
  with assms(2) show ?thesis by (metis last_appendR)
qed

lemma remove_planet_dot01:
  assumes "endswith name ''.01'' \<or> endswith name ''.02''"
  shows "remove_planet name = take (length name - 3) name \<and>
         (remove_planet name @ ''.01'' = name \<or> remove_planet name @ ''.02'' = name)"
proof -
  from assms have l: "last name = CHR ''1'' \<or> last name = CHR ''2''"
    using endswith_last [of name "''.01''"] endswith_last [of name "''.02''"] by auto
  have "\<not> endswith name ('' '' @ [p])" if "p \<in> set planets" for p
  proof
    assume "endswith name ('' '' @ [p])"
    then have "last name = p" using endswith_last [of name "'' '' @ [p]"] by simp
    with l that show False by (auto simp: planets_def)
  qed
  then have "remove_planet_loop planets name = None"
    by (simp only: remove_planet_loop_None) blast
  with assms have r: "remove_planet name = take (length name - 3) name"
    by (auto simp: remove_planet_def slice_to_minus_def)
  from assms have "take (length name - 3) name @ ''.01'' = name \<or>
      take (length name - 3) name @ ''.02'' = name"
    unfolding endswith_def by (metis append_take_drop_id length_Cons list.size(3) numeral_3_eq_3)
  with r show ?thesis by simp
qed

end
